theory Spec2Isabelle
  imports Main "HOL-Library.Word"
begin

section \<open>The homeoffice SPI client (homeoffice.c)\<close>

text \<open>
  A shallow embedding of \<^verbatim>\<open>homeoffice.c\<close>. Memory that the program copies with
  \<^verbatim>\<open>memcpy\<close> is kept as bytes; the two globals, the standard streams and the log of
  the messages handed to the SPI driver form the state; \<^verbatim>\<open>exit(1)\<close> is a value of
  the result type. The kernel side (\<^verbatim>\<open>open\<close>, \<^verbatim>\<open>ioctl\<close>) is a parameter of every
  function: a record of what each system call answers.
\<close>

type_synonym byte = "8 word"

subsection \<open>Private defines\<close>

definition SPI_DEVICE :: string where "SPI_DEVICE = ''/dev/spidev0.0''"
definition SPI_MODE :: byte where "SPI_MODE = 0"
definition SPI_BITS_PER_WORD :: nat where "SPI_BITS_PER_WORD = 8"
definition SPI_SPEED_HZ :: nat where "SPI_SPEED_HZ = 100000"

definition CMD_READ_VOLTAGE :: byte where "CMD_READ_VOLTAGE = 0x01"
definition CMD_READ_CURRENT :: byte where "CMD_READ_CURRENT = 0x02"
definition CMD_READ_POWER :: byte where "CMD_READ_POWER = 0x03"
definition CMD_READ_RELAY :: byte where "CMD_READ_RELAY = 0x04"
definition CMD_READ_ALL :: byte where "CMD_READ_ALL = 0x05"
definition CMD_SET_RELAY_ON :: byte where "CMD_SET_RELAY_ON = 0x06"
definition CMD_SET_RELAY_OFF :: byte where "CMD_SET_RELAY_OFF = 0x07"

subsection \<open>The struct \<^verbatim>\<open>homeoffice_data\<close>\<close>

text \<open>
  \<^verbatim>\<open>struct { float voltage; float current; float power; uint8_t relay; }\<close> with the
  attributes \<^verbatim>\<open>packed\<close> and \<^verbatim>\<open>aligned(4)\<close>: the members follow each other without
  padding, and the size of the struct is rounded up to its alignment.
\<close>

datatype member = Voltage | Current | Power | Relay

definition sizeof_float :: nat where "sizeof_float = 4"
definition sizeof_uint8_t :: nat where "sizeof_uint8_t = 1"

fun sizeof_member :: "member \<Rightarrow> nat" where
  "sizeof_member Voltage = sizeof_float"
| "sizeof_member Current = sizeof_float"
| "sizeof_member Power = sizeof_float"
| "sizeof_member Relay = sizeof_uint8_t"

fun offsetof :: "member \<Rightarrow> nat" where
  "offsetof Voltage = 0"
| "offsetof Current = sizeof_member Voltage"
| "offsetof Power = sizeof_member Voltage + sizeof_member Current"
| "offsetof Relay = sizeof_member Voltage + sizeof_member Current + sizeof_member Power"

definition align_up :: "nat \<Rightarrow> nat \<Rightarrow> nat" where
  "align_up a n = ((n + a - 1) div a) * a"

definition sizeof_homeoffice_data :: nat where
  "sizeof_homeoffice_data = align_up 4 (offsetof Relay + sizeof_member Relay)"

subsection \<open>State, driver and results\<close>

text \<open>
  One \<^verbatim>\<open>struct spi_ioc_transfer\<close> as the program fills it: the bytes of the buffer
  that \<^verbatim>\<open>tx_buf\<close> points to, and the three scalar fields. \<^verbatim>\<open>rx_buf\<close> always points
  to the local \<^verbatim>\<open>recvbuf\<close>; its contents after the call are the \<open>ex_reply\<close> of the
  logged exchange.
\<close>

record spi_ioc_transfer =
  tr_tx_buf :: "byte list"
  tr_len :: nat
  tr_speed_hz :: nat
  tr_bits_per_word :: nat

record exchange =
  ex_request :: spi_ioc_transfer
  ex_reply :: "byte list option"

datatype ioctl_request =
  SPI_IOC_WR_MODE byte
| SPI_IOC_WR_BITS_PER_WORD byte
| SPI_IOC_WR_MAX_SPEED_HZ "32 word"

text \<open>
  What the kernel answers. \<open>sys_open\<close> is the value of \<^verbatim>\<open>open(path, O_RDWR)\<close>;
  \<open>sys_ioctl\<close> the value of a configuration \<^verbatim>\<open>ioctl\<close>; \<open>sys_spi_message\<close> answers
  \<^verbatim>\<open>ioctl(fd, SPI_IOC_MESSAGE(1), &transfer)\<close> from the descriptor and all transfers
  submitted so far (the last one is the current one): \<open>None\<close> when the call returns a
  negative value, otherwise the byte that the peripheral clocks in at each position.
\<close>

record driver =
  sys_open :: "string \<Rightarrow> int"
  sys_ioctl :: "int \<Rightarrow> ioctl_request \<Rightarrow> int"
  sys_spi_message :: "int \<Rightarrow> spi_ioc_transfer list \<Rightarrow> (nat \<Rightarrow> byte) option"

text \<open>The argument of a \<^verbatim>\<open>%f\<close> or \<^verbatim>\<open>%s\<close> conversion, as the C expression that is passed.\<close>

datatype cexpr =
  FloatObj "byte list"
| Times cexpr int
| Str string

datatype out_item =
  Printf string "cexpr list"
| System string

record state =
  gs_spi_fd :: int
  gs_homeoffice_data :: "byte list"
  bus_log :: "exchange list"
  stdout :: "out_item list"
  stderr :: "string list"

datatype fault = Exit int | OutOfBounds

type_synonym result = "(fault \<times> state) + state"

definition seq :: "result \<Rightarrow> (state \<Rightarrow> result) \<Rightarrow> result" where
  "seq r f = (case r of Inl e \<Rightarrow> Inl e | Inr s \<Rightarrow> f s)"

definition printf :: "string \<Rightarrow> cexpr list \<Rightarrow> state \<Rightarrow> state" where
  "printf fmt args s = s\<lparr>stdout := stdout s @ [Printf fmt args]\<rparr>"

definition system :: "string \<Rightarrow> state \<Rightarrow> state" where
  "system cmd s = s\<lparr>stdout := stdout s @ [System cmd]\<rparr>"

definition perror :: "string \<Rightarrow> state \<Rightarrow> state" where
  "perror msg s = s\<lparr>stderr := stderr s @ [msg]\<rparr>"

text \<open>
  \<^verbatim>\<open>memcpy(dst + d, src + s, n)\<close> on two byte objects. Reading or writing past the end
  of either object is undefined in C: the model answers \<open>None\<close>.
\<close>

definition memcpy :: "byte list \<Rightarrow> nat \<Rightarrow> byte list \<Rightarrow> nat \<Rightarrow> nat \<Rightarrow> byte list option" where
  "memcpy dst d src s n =
     (if s + n \<le> length src \<and> d + n \<le> length dst
      then Some (take d dst @ take n (drop s src) @ drop (d + n) dst)
      else None)"

subsection \<open>\<^verbatim>\<open>spi_transfer\<close>, \<^verbatim>\<open>spi_write\<close>, \<^verbatim>\<open>spi_read\<close>\<close>

text \<open>
  \<open>tx_buf\<close> is \<open>None\<close> for \<^verbatim>\<open>NULL\<close>, otherwise the bytes of the object pointed to.
  \<open>rx_buf\<close> is \<open>None\<close> for \<^verbatim>\<open>NULL\<close>, otherwise an offset into \<^verbatim>\<open>gs_homeoffice_data\<close>
  (every non-null \<^verbatim>\<open>rx_buf\<close> of the program points into that object). The \<^verbatim>\<open>printd\<close>
  calls expand to nothing, \<^verbatim>\<open>__DEBUG__\<close> not being defined by the build.
\<close>

definition fill_sendbuf :: "byte list option \<Rightarrow> nat \<Rightarrow> byte list option" where
  "fill_sendbuf tx_buf n =
     (let sendbuf = replicate 20 0 in
      case tx_buf of None \<Rightarrow> Some sendbuf | Some obj \<Rightarrow> memcpy sendbuf 0 obj 0 n)"

definition make_transfer :: "byte list \<Rightarrow> spi_ioc_transfer" where
  "make_transfer sendbuf =
     \<lparr>tr_tx_buf = sendbuf, tr_len = 20, tr_speed_hz = SPI_SPEED_HZ,
      tr_bits_per_word = SPI_BITS_PER_WORD\<rparr>"

text \<open>The driver stores \<open>tr_len\<close> received bytes at the start of the receive buffer.\<close>

definition clock_in :: "spi_ioc_transfer \<Rightarrow> (nat \<Rightarrow> byte) \<Rightarrow> byte list \<Rightarrow> byte list" where
  "clock_in t miso recvbuf = map miso [0..<tr_len t] @ drop (tr_len t) recvbuf"

definition copy_out :: "nat option \<Rightarrow> byte list \<Rightarrow> nat \<Rightarrow> state \<Rightarrow> result" where
  "copy_out rx_buf recvbuf n s =
     (case rx_buf of
        None \<Rightarrow> Inr s
      | Some off \<Rightarrow>
          (case memcpy (gs_homeoffice_data s) off recvbuf 3 n of
             None \<Rightarrow> Inl (OutOfBounds, s)
           | Some d \<Rightarrow> Inr (s\<lparr>gs_homeoffice_data := d\<rparr>)))"

definition spi_transfer :: "driver \<Rightarrow> byte list option \<Rightarrow> nat option \<Rightarrow> nat \<Rightarrow> state \<Rightarrow> result" where
  "spi_transfer drv tx_buf rx_buf n s =
     (case fill_sendbuf tx_buf n of
        None \<Rightarrow> Inl (OutOfBounds, s)
      | Some sendbuf \<Rightarrow>
          (let recvbuf = replicate 20 0;
               transfer = make_transfer sendbuf
           in case sys_spi_message drv (gs_spi_fd s) (map ex_request (bus_log s) @ [transfer]) of
                None \<Rightarrow>
                  Inl (Exit 1,
                       perror ''Error transferring SPI data''
                         (s\<lparr>bus_log := bus_log s @ [\<lparr>ex_request = transfer, ex_reply = None\<rparr>]\<rparr>))
              | Some miso \<Rightarrow>
                  (let recvbuf = clock_in transfer miso recvbuf
                   in copy_out rx_buf recvbuf n
                        (s\<lparr>bus_log := bus_log s @
                              [\<lparr>ex_request = transfer, ex_reply = Some recvbuf\<rparr>]\<rparr>))))"

definition spi_write :: "driver \<Rightarrow> byte \<Rightarrow> state \<Rightarrow> result" where
  "spi_write drv cmd s = spi_transfer drv (Some [cmd]) None 1 s"

definition spi_read :: "driver \<Rightarrow> nat \<Rightarrow> nat \<Rightarrow> state \<Rightarrow> result" where
  "spi_read drv rx_buf n s = spi_transfer drv None (Some rx_buf) n s"

subsection \<open>The operations on the device\<close>

text \<open>Reading a member of \<^verbatim>\<open>gs_homeoffice_data\<close>: its bytes, and the relay byte as a value.\<close>

definition member_bytes :: "member \<Rightarrow> state \<Rightarrow> byte list" where
  "member_bytes m s = take (sizeof_member m) (drop (offsetof m) (gs_homeoffice_data s))"

definition relay_value :: "state \<Rightarrow> byte" where
  "relay_value s = gs_homeoffice_data s ! offsetof Relay"

definition on_off :: "byte \<Rightarrow> string" where
  "on_off b = (if b \<noteq> 0 then ''ON'' else ''OFF'')"

definition spi_read_voltage :: "driver \<Rightarrow> state \<Rightarrow> result" where
  "spi_read_voltage drv s =
     seq (spi_write drv CMD_READ_VOLTAGE s) (\<lambda>s.
     seq (spi_read drv (offsetof Voltage) sizeof_float s) (\<lambda>s.
     Inr (printf ''Voltage: %05.2f V\<newline>'' [FloatObj (member_bytes Voltage s)] s)))"

definition spi_read_current :: "driver \<Rightarrow> state \<Rightarrow> result" where
  "spi_read_current drv s =
     seq (spi_write drv CMD_READ_CURRENT s) (\<lambda>s.
     seq (spi_read drv (offsetof Current) sizeof_float s) (\<lambda>s.
     Inr (printf ''Current: %05.2f mA\<newline>''
            [Times (FloatObj (member_bytes Current s)) 1000] s)))"

definition spi_read_power :: "driver \<Rightarrow> state \<Rightarrow> result" where
  "spi_read_power drv s =
     seq (spi_write drv CMD_READ_POWER s) (\<lambda>s.
     seq (spi_read drv (offsetof Power) sizeof_float s) (\<lambda>s.
     Inr (printf ''Power: %05.2f mW\<newline>''
            [Times (FloatObj (member_bytes Power s)) 1000] s)))"

definition spi_read_all :: "driver \<Rightarrow> state \<Rightarrow> result" where
  "spi_read_all drv s =
     seq (spi_write drv CMD_READ_ALL s) (\<lambda>s.
     seq (spi_read drv 0 sizeof_homeoffice_data s) (\<lambda>s.
     Inr (printf ''Relay: %s\<newline>'' [Str (on_off (relay_value s))]
         (printf ''Power: %05.2f mW\<newline>'' [Times (FloatObj (member_bytes Power s)) 1000]
         (printf ''Current: %05.2f mA\<newline>'' [Times (FloatObj (member_bytes Current s)) 1000]
         (printf ''Voltage: %05.2f mV\<newline>'' [FloatObj (member_bytes Voltage s)] s))))))"

definition spi_read_relay :: "driver \<Rightarrow> state \<Rightarrow> result" where
  "spi_read_relay drv s =
     seq (spi_write drv CMD_READ_RELAY s) (\<lambda>s.
     seq (spi_read drv (offsetof Relay) sizeof_uint8_t s) (\<lambda>s.
     Inr (printf ''Relay: %s\<newline>'' [Str (on_off (relay_value s))] s)))"

definition spi_set_relay :: "driver \<Rightarrow> byte \<Rightarrow> state \<Rightarrow> result" where
  "spi_set_relay drv st s =
     seq (spi_write drv (if st \<noteq> 0 then CMD_SET_RELAY_ON else CMD_SET_RELAY_OFF) s) (\<lambda>s.
     seq (spi_read drv (offsetof Relay) sizeof_uint8_t s) (\<lambda>s.
     Inr (printf ''Relay: %s\<newline>'' [Str (on_off (relay_value s))] s)))"

text \<open>The six operations as one type, to speak about all of them at once.\<close>

datatype operation = ReadVoltage | ReadCurrent | ReadPower | ReadRelay | ReadAll | SetRelay byte

fun execute :: "driver \<Rightarrow> operation \<Rightarrow> state \<Rightarrow> result" where
  "execute drv ReadVoltage s = spi_read_voltage drv s"
| "execute drv ReadCurrent s = spi_read_current drv s"
| "execute drv ReadPower s = spi_read_power drv s"
| "execute drv ReadRelay s = spi_read_relay drv s"
| "execute drv ReadAll s = spi_read_all drv s"
| "execute drv (SetRelay st) s = spi_set_relay drv st s"

text \<open>The command byte an operation writes and the number of bytes it asks \<^verbatim>\<open>spi_read\<close> for.\<close>

fun command_of :: "operation \<Rightarrow> byte" where
  "command_of ReadVoltage = CMD_READ_VOLTAGE"
| "command_of ReadCurrent = CMD_READ_CURRENT"
| "command_of ReadPower = CMD_READ_POWER"
| "command_of ReadRelay = CMD_READ_RELAY"
| "command_of ReadAll = CMD_READ_ALL"
| "command_of (SetRelay st) = (if st \<noteq> 0 then CMD_SET_RELAY_ON else CMD_SET_RELAY_OFF)"

fun read_length :: "operation \<Rightarrow> nat" where
  "read_length ReadVoltage = sizeof_float"
| "read_length ReadCurrent = sizeof_float"
| "read_length ReadPower = sizeof_float"
| "read_length ReadRelay = sizeof_uint8_t"
| "read_length ReadAll = sizeof_homeoffice_data"
| "read_length (SetRelay st) = sizeof_uint8_t"

fun read_target :: "operation \<Rightarrow> nat" where
  "read_target ReadVoltage = offsetof Voltage"
| "read_target ReadCurrent = offsetof Current"
| "read_target ReadPower = offsetof Power"
| "read_target ReadRelay = offsetof Relay"
| "read_target ReadAll = 0"
| "read_target (SetRelay st) = offsetof Relay"

subsection \<open>\<^verbatim>\<open>spi_init\<close> and \<^verbatim>\<open>main\<close>\<close>

definition spi_init :: "driver \<Rightarrow> state \<Rightarrow> result" where
  "spi_init drv s0 =
     (let s = s0\<lparr>gs_spi_fd := sys_open drv SPI_DEVICE\<rparr> in
      if gs_spi_fd s < 0 then Inl (Exit 1, perror ''Error opening SPI device'' s)
      else if sys_ioctl drv (gs_spi_fd s) (SPI_IOC_WR_MODE SPI_MODE) < 0
        then Inl (Exit 1, perror ''Error setting SPI mode'' s)
      else if sys_ioctl drv (gs_spi_fd s)
                (SPI_IOC_WR_BITS_PER_WORD (of_nat SPI_BITS_PER_WORD)) < 0
        then Inl (Exit 1, perror ''Error setting SPI bits per word'' s)
      else if sys_ioctl drv (gs_spi_fd s)
                (SPI_IOC_WR_MAX_SPEED_HZ (of_nat SPI_SPEED_HZ)) < 0
        then Inl (Exit 1, perror ''Error setting SPI speed'' s)
      else Inr s)"

text \<open>The globals and streams when \<^verbatim>\<open>main\<close> starts.\<close>

definition initial_state :: state where
  "initial_state =
     \<lparr>gs_spi_fd = - 1, gs_homeoffice_data = replicate sizeof_homeoffice_data 0,
      bus_log = [], stdout = [], stderr = []\<rparr>"

definition print_menu :: "state \<Rightarrow> state" where
  "print_menu s =
     printf ''Enter your choice: '' []
    (printf '' 8: Exit\<newline>\<newline>'' []
    (printf '' 7: Set Relay Off\<newline>'' []
    (printf '' 6: Set Relay On\<newline>'' []
    (printf '' 5: Read All\<newline>'' []
    (printf '' 4: Read Relay\<newline>'' []
    (printf '' 3: Read Voltage\<newline>'' []
    (printf '' 2: Read Current\<newline>'' []
    (printf '' 1: Read Power\<newline>'' []
    (printf ''Choices:\<newline>'' [] s)))))))))"

text \<open>
  \<^verbatim>\<open>choice\<close> is a C \<^verbatim>\<open>int\<close>, 32 bits on the target; the program only compares it
  for equality.
\<close>

type_synonym c_int = "32 word"

text \<open>The \<^verbatim>\<open>switch (choice)\<close> of the menu.\<close>

definition menu_switch :: "driver \<Rightarrow> c_int \<Rightarrow> state \<Rightarrow> result" where
  "menu_switch drv choice s =
     (if choice = 1 then spi_read_power drv s
      else if choice = 2 then spi_read_current drv s
      else if choice = 3 then spi_read_voltage drv s
      else if choice = 4 then spi_read_relay drv s
      else if choice = 5 then spi_read_all drv s
      else if choice = 6 then spi_set_relay drv 1 s
      else if choice = 7 then spi_set_relay drv 0 s
      else if choice = 8 then Inr (printf ''Exiting...\<newline>'' [] s)
      else Inr (printf ''Invalid choice\<newline>'' [] s))"

text \<open>
  The \<^verbatim>\<open>while (choice != 8)\<close> loop. Standard input is the list of what each
  \<^verbatim>\<open>scanf("%d", &choice)\<close> does: \<open>Some n\<close> when it stores the \<^verbatim>\<open>int\<close> value \<open>n\<close>
  in \<^verbatim>\<open>choice\<close>, \<open>None\<close> when nothing converts; at the end of the list (end of file)
  nothing converts either, and \<^verbatim>\<open>choice\<close> keeps its value. The loop need not end, so it runs on fuel: one unit per iteration,
  \<open>None\<close> when the fuel is used up before the loop is left.
\<close>

fun menu_loop :: "driver \<Rightarrow> nat \<Rightarrow> c_int \<Rightarrow> c_int option list \<Rightarrow> state \<Rightarrow> result option" where
  "menu_loop drv 0 choice inp s = (if choice \<noteq> 8 then None else Some (Inr s))"
| "menu_loop drv (Suc k) choice inp s =
     (if choice \<noteq> 8 then
        (let s = system ''clear'' s;
             s = s\<lparr>gs_homeoffice_data := replicate sizeof_homeoffice_data 0\<rparr>;
             s = print_menu s;
             choice = (case inp of Some c # _ \<Rightarrow> c | _ \<Rightarrow> choice);
             s = printf ''\<newline>'' [] s
         in case menu_switch drv choice s of
              Inl e \<Rightarrow> Some (Inl e)
            | Inr s \<Rightarrow>
                menu_loop drv k choice (tl inp)
                  (printf ''\<newline>Press [ENTER] to continue....'' [] s))
      else Some (Inr s))"

text \<open>
  \<^verbatim>\<open>main\<close>: \<^verbatim>\<open>spi_init\<close>, then the loop from \<^verbatim>\<open>choice = 0\<close>. The closing
  \<^verbatim>\<open>close(gs_spi_fd)\<close> and \<^verbatim>\<open>return 0\<close> change nothing that the state records, so a
  run that leaves the loop ends in \<open>Inr\<close> of the state reached.
\<close>

definition main :: "driver \<Rightarrow> nat \<Rightarrow> c_int option list \<Rightarrow> result option" where
  "main drv fuel inp =
     (case spi_init drv initial_state of
        Inl e \<Rightarrow> Some (Inl e)
      | Inr s \<Rightarrow> menu_loop drv fuel 0 inp s)"

section \<open>Vocabulary of the properties\<close>

text \<open>The state in which a run ends, whether by \<^verbatim>\<open>exit\<close> or by returning.\<close>

definition final_state :: "result \<Rightarrow> state" where
  "final_state r = (case r of Inl (e, s) \<Rightarrow> s | Inr s \<Rightarrow> s)"

definition requests :: "state \<Rightarrow> spi_ioc_transfer list" where
  "requests s = map ex_request (bus_log s)"

definition sent_frames :: "state \<Rightarrow> byte list list" where
  "sent_frames s = map tr_tx_buf (requests s)"

text \<open>The exchanges that a run starting in \<open>s\<close> added to the log.\<close>

definition new_exchanges :: "state \<Rightarrow> result \<Rightarrow> exchange list" where
  "new_exchanges s r = drop (length (bus_log s)) (bus_log (final_state r))"

text \<open>The 20 bytes that a successful transfer leaves in \<^verbatim>\<open>recvbuf\<close>.\<close>

definition received :: "(nat \<Rightarrow> byte) \<Rightarrow> byte list" where
  "received miso = map miso [0..<20]"

text \<open>An exchange of 20 bytes in each direction.\<close>

definition fixed_frame :: "exchange \<Rightarrow> bool" where
  "fixed_frame e =
     (tr_len (ex_request e) = 20 \<and> length (tr_tx_buf (ex_request e)) = 20 \<and>
      (case ex_reply e of None \<Rightarrow> True | Some r \<Rightarrow> length r = 20))"

text \<open>The transfer that carries the command of an operation, and the one that reads.\<close>

definition command_frame :: "operation \<Rightarrow> spi_ioc_transfer" where
  "command_frame op = make_transfer (command_of op # replicate 19 0)"

definition idle_frame :: spi_ioc_transfer where
  "idle_frame = make_transfer (replicate 20 0)"

text \<open>What each operation prints once its two transfers are done.\<close>

fun show_reading :: "operation \<Rightarrow> state \<Rightarrow> state" where
  "show_reading ReadVoltage s =
     printf ''Voltage: %05.2f V\<newline>'' [FloatObj (member_bytes Voltage s)] s"
| "show_reading ReadCurrent s =
     printf ''Current: %05.2f mA\<newline>'' [Times (FloatObj (member_bytes Current s)) 1000] s"
| "show_reading ReadPower s =
     printf ''Power: %05.2f mW\<newline>'' [Times (FloatObj (member_bytes Power s)) 1000] s"
| "show_reading ReadRelay s = printf ''Relay: %s\<newline>'' [Str (on_off (relay_value s))] s"
| "show_reading ReadAll s =
     printf ''Relay: %s\<newline>'' [Str (on_off (relay_value s))]
    (printf ''Power: %05.2f mW\<newline>'' [Times (FloatObj (member_bytes Power s)) 1000]
    (printf ''Current: %05.2f mA\<newline>'' [Times (FloatObj (member_bytes Current s)) 1000]
    (printf ''Voltage: %05.2f mV\<newline>'' [FloatObj (member_bytes Voltage s)] s)))"
| "show_reading (SetRelay st) s =
     printf ''Relay: %s\<newline>'' [Str (on_off (relay_value s))] s"

text \<open>A run only appends exchanges of 20 bytes to the log.\<close>

definition log_extends :: "state \<Rightarrow> result \<Rightarrow> bool" where
  "log_extends s r =
     (\<exists>es. bus_log (final_state r) = bus_log s @ es \<and> list_all fixed_frame es)"

definition startup_diagnostics :: "string list" where
  "startup_diagnostics =
     [''Error opening SPI device'', ''Error setting SPI mode'',
      ''Error setting SPI bits per word'', ''Error setting SPI speed'']"

text \<open>
  The relay byte of a read-all reply as the table of the specification lays the payload
  out, voltage(4) + current(4) + relay(1) from offset 3: the ninth payload byte.
\<close>

definition table_relay_byte :: "byte list \<Rightarrow> byte" where
  "table_relay_byte frame = frame ! (3 + 4 + 4)"

definition table_payload :: "byte list \<Rightarrow> byte list" where
  "table_payload frame = take 9 (drop 3 frame)"

subsection \<open>Concrete drivers, states and frames\<close>

text \<open>
  A reply frame: two reserved bytes, the echo byte, then 12.0, 0.5 and 6.0 as
  little-endian single-precision floats, the relay byte 1 and four more bytes.
\<close>

definition demo_reply :: "byte list" where
  "demo_reply =
     [0xAA, 0xBB, 0x05,
      0x00, 0x00, 0x40, 0x41,
      0x00, 0x00, 0x00, 0x3F,
      0x00, 0x00, 0xC0, 0x40,
      0x01,
      0x11, 0x22, 0x33, 0x44]"

text \<open>
  The reply of the read-current scenario: payload bytes 3..7 are \<^verbatim>\<open>00 00 00 3F\<close>, the
  little-endian single-precision float 0.5.
\<close>

definition current_reply :: "byte list" where
  "current_reply = [0x00, 0x00, 0x02, 0x00, 0x00, 0x00, 0x3F] @ replicate 13 0"

text \<open>The reply frame \<open>demo_reply\<close> with other bytes at offsets 0, 1 and 2.\<close>

definition demo_reply_other_header :: "byte list" where
  "demo_reply_other_header = [0x01, 0x02, 0x03] @ drop 3 demo_reply"

text \<open>Frames that are zero except for a 1 at offset 11, or at offset 15.\<close>

definition frame_one_at_11 :: "byte list" where
  "frame_one_at_11 = (replicate 20 0)[11 := 1]"

definition frame_one_at_15 :: "byte list" where
  "frame_one_at_15 = (replicate 20 0)[15 := 1]"

text \<open>A device that is there and answers every transfer with the same frame.\<close>

definition echo_driver :: "byte list \<Rightarrow> driver" where
  "echo_driver frame =
     \<lparr>sys_open = (\<lambda>path. 3), sys_ioctl = (\<lambda>fd req. 0),
      sys_spi_message = (\<lambda>fd hist. Some (\<lambda>i. frame ! i))\<rparr>"

text \<open>A device that answers the transfer of the command with one frame and the next with another.\<close>

definition two_reply_driver :: "byte list \<Rightarrow> byte list \<Rightarrow> driver" where
  "two_reply_driver r1 r2 =
     \<lparr>sys_open = (\<lambda>path. 3), sys_ioctl = (\<lambda>fd req. 0),
      sys_spi_message = (\<lambda>fd hist. Some (\<lambda>i. (if length hist = 1 then r1 else r2) ! i))\<rparr>"

text \<open>A device whose first transfer succeeds and whose later transfers fail.\<close>

definition second_fails_driver :: "byte list \<Rightarrow> driver" where
  "second_fails_driver frame =
     \<lparr>sys_open = (\<lambda>path. 3), sys_ioctl = (\<lambda>fd req. 0),
      sys_spi_message = (\<lambda>fd hist. if length hist = 1 then Some (\<lambda>i. frame ! i) else None)\<rparr>"

text \<open>A device that opens but rejects the word width.\<close>

definition rejects_bits_driver :: driver where
  "rejects_bits_driver =
     \<lparr>sys_open = (\<lambda>path. 3),
      sys_ioctl = (\<lambda>fd req. case req of SPI_IOC_WR_BITS_PER_WORD b \<Rightarrow> - 1 | _ \<Rightarrow> 0),
      sys_spi_message = (\<lambda>fd hist. Some (\<lambda>i. 0))\<rparr>"

text \<open>The state after a successful \<^verbatim>\<open>spi_init\<close> on descriptor 3.\<close>

definition ready_state :: state where
  "ready_state = initial_state\<lparr>gs_spi_fd := 3\<rparr>"

text \<open>The same with a reading left in the struct by an earlier operation.\<close>

definition cached_state :: state where
  "cached_state = ready_state\<lparr>gs_homeoffice_data := take 16 (drop 3 demo_reply)\<rparr>"

section \<open>Facts about the transfer functions\<close>

lemma length_received: "length (received miso) = 20"
  by (simp add: received_def del: upt_rec_numeral)

lemma slice_map_upt: "k + n \<le> m \<Longrightarrow> take n (drop k (map f [0..<m])) = map f [k..<k + n]"
  by (simp add: take_map drop_map)

lemma received_payload: "3 + n \<le> 20 \<Longrightarrow> take n (drop 3 (received miso)) = map miso [3..<3 + n]"
  unfolding received_def by (rule slice_map_upt)

lemma clock_in_received: "clock_in (make_transfer b) miso (replicate 20 0) = received miso"
  by (simp add: clock_in_def make_transfer_def received_def del: upt_rec_numeral)

lemma fill_sendbuf_cmd: "fill_sendbuf (Some [cmd]) 1 = Some (cmd # replicate 19 0)"
  by (simp add: fill_sendbuf_def memcpy_def numeral_eq_Suc)

lemma fill_sendbuf_null: "fill_sendbuf None n = Some (replicate 20 0)"
  by (simp add: fill_sendbuf_def)

lemma spi_write_eq:
  "spi_write drv cmd s =
     (case sys_spi_message drv (gs_spi_fd s)
             (requests s @ [make_transfer (cmd # replicate 19 0)]) of
        None \<Rightarrow>
          Inl (Exit 1, perror ''Error transferring SPI data''
                 (s\<lparr>bus_log := bus_log s @
                    [\<lparr>ex_request = make_transfer (cmd # replicate 19 0), ex_reply = None\<rparr>]\<rparr>))
      | Some miso \<Rightarrow>
          Inr (s\<lparr>bus_log := bus_log s @
                 [\<lparr>ex_request = make_transfer (cmd # replicate 19 0),
                   ex_reply = Some (received miso)\<rparr>]\<rparr>))"
  unfolding spi_write_def spi_transfer_def fill_sendbuf_cmd
  by (simp add: requests_def copy_out_def Let_def clock_in_received split: option.splits)

lemma spi_read_eq:
  "spi_read drv off n s =
     (case sys_spi_message drv (gs_spi_fd s)
             (requests s @ [make_transfer (replicate 20 0)]) of
        None \<Rightarrow>
          Inl (Exit 1, perror ''Error transferring SPI data''
                 (s\<lparr>bus_log := bus_log s @
                    [\<lparr>ex_request = make_transfer (replicate 20 0), ex_reply = None\<rparr>]\<rparr>))
      | Some miso \<Rightarrow>
          copy_out (Some off) (received miso) n
            (s\<lparr>bus_log := bus_log s @
                 [\<lparr>ex_request = make_transfer (replicate 20 0),
                   ex_reply = Some (received miso)\<rparr>]\<rparr>))"
  unfolding spi_read_def spi_transfer_def fill_sendbuf_null
  by (simp add: requests_def Let_def clock_in_received split: option.splits)

lemma sizeof_homeoffice_data_16: "sizeof_homeoffice_data = 16"
  by (simp add: sizeof_homeoffice_data_def align_up_def sizeof_float_def sizeof_uint8_t_def)

lemma read_length_cases: "read_length op = 1 \<or> read_length op = 4 \<or> read_length op = 16"
  by (cases op) (simp_all add: sizeof_float_def sizeof_uint8_t_def sizeof_homeoffice_data_16)

lemma read_length_le: "3 + read_length op \<le> 20"
  using read_length_cases [of op] by auto

lemma read_target_le: "read_target op + read_length op \<le> sizeof_homeoffice_data"
  by (cases op) (simp_all add: sizeof_float_def sizeof_uint8_t_def sizeof_homeoffice_data_16)

lemma execute_eq:
  "execute drv op s =
     seq (spi_write drv (command_of op) s) (\<lambda>s1.
     seq (spi_read drv (read_target op) (read_length op) s1) (\<lambda>s2.
     Inr (show_reading op s2)))"
  by (cases op)
    (simp_all add: spi_read_voltage_def spi_read_current_def spi_read_power_def
      spi_read_relay_def spi_read_all_def spi_set_relay_def)

lemma copy_out_ok:
  assumes "3 + n \<le> 20" and "off + n \<le> length (gs_homeoffice_data s)"
  shows "copy_out (Some off) (received miso) n s =
         Inr (s\<lparr>gs_homeoffice_data :=
                take off (gs_homeoffice_data s) @ map miso [3..<3 + n] @
                drop (off + n) (gs_homeoffice_data s)\<rparr>)"
  using assms by (simp add: copy_out_def memcpy_def received_payload length_received)

lemma execute_ok:
  assumes m1: "sys_spi_message drv (gs_spi_fd s) (requests s @ [command_frame op]) = Some miso1"
    and m2: "sys_spi_message drv (gs_spi_fd s) (requests s @ [command_frame op, idle_frame])
             = Some miso2"
    and sz: "length (gs_homeoffice_data s) = sizeof_homeoffice_data"
  shows "execute drv op s =
         Inr (show_reading op
           (s\<lparr>bus_log := bus_log s @
                 [\<lparr>ex_request = command_frame op, ex_reply = Some (received miso1)\<rparr>,
                  \<lparr>ex_request = idle_frame, ex_reply = Some (received miso2)\<rparr>],
               gs_homeoffice_data :=
                 take (read_target op) (gs_homeoffice_data s) @
                 map miso2 [3..<3 + read_length op] @
                 drop (read_target op + read_length op) (gs_homeoffice_data s)\<rparr>))"
proof -
  let ?s1 = "s\<lparr>bus_log := bus_log s @
                 [\<lparr>ex_request = command_frame op, ex_reply = Some (received miso1)\<rparr>]\<rparr>"
  have w: "spi_write drv (command_of op) s = Inr ?s1"
    using m1 by (simp add: spi_write_eq command_frame_def)
  have rq: "requests ?s1 @ [make_transfer (replicate 20 0)]
            = requests s @ [command_frame op, idle_frame]"
    by (simp add: requests_def idle_frame_def)
  let ?s2 = "s\<lparr>bus_log := bus_log s @
                 [\<lparr>ex_request = command_frame op, ex_reply = Some (received miso1)\<rparr>,
                  \<lparr>ex_request = idle_frame, ex_reply = Some (received miso2)\<rparr>]\<rparr>"
  have bound: "read_target op + read_length op \<le> length (gs_homeoffice_data ?s2)"
    using read_target_le [of op] sz by simp
  have r: "spi_read drv (read_target op) (read_length op) ?s1 =
           Inr (s\<lparr>bus_log := bus_log s @
                 [\<lparr>ex_request = command_frame op, ex_reply = Some (received miso1)\<rparr>,
                  \<lparr>ex_request = idle_frame, ex_reply = Some (received miso2)\<rparr>],
               gs_homeoffice_data :=
                 take (read_target op) (gs_homeoffice_data s) @
                 map miso2 [3..<3 + read_length op] @
                 drop (read_target op + read_length op) (gs_homeoffice_data s)\<rparr>)"
    unfolding spi_read_eq rq
    using m2 copy_out_ok [OF read_length_le bound, of miso2]
    by (simp add: idle_frame_def)
  show ?thesis
    unfolding execute_eq w by (simp add: seq_def r)
qed


lemma execute_fail_first:
  assumes "sys_spi_message drv (gs_spi_fd s) (requests s @ [command_frame op]) = None"
  shows "execute drv op s =
         Inl (Exit 1, perror ''Error transferring SPI data''
           (s\<lparr>bus_log := bus_log s @ [\<lparr>ex_request = command_frame op, ex_reply = None\<rparr>]\<rparr>))"
  unfolding execute_eq spi_write_eq using assms by (simp add: seq_def command_frame_def)

lemma execute_fail_second:
  assumes m1: "sys_spi_message drv (gs_spi_fd s) (requests s @ [command_frame op]) = Some miso1"
    and m2: "sys_spi_message drv (gs_spi_fd s) (requests s @ [command_frame op, idle_frame])
             = None"
  shows "execute drv op s =
         Inl (Exit 1, perror ''Error transferring SPI data''
           (s\<lparr>bus_log := bus_log s @
                 [\<lparr>ex_request = command_frame op, ex_reply = Some (received miso1)\<rparr>,
                  \<lparr>ex_request = idle_frame, ex_reply = None\<rparr>]\<rparr>))"
proof -
  let ?s1 = "s\<lparr>bus_log := bus_log s @
                 [\<lparr>ex_request = command_frame op, ex_reply = Some (received miso1)\<rparr>]\<rparr>"
  have w: "spi_write drv (command_of op) s = Inr ?s1"
    using m1 by (simp add: spi_write_eq command_frame_def)
  have rq: "requests ?s1 @ [make_transfer (replicate 20 0)]
            = requests s @ [command_frame op, idle_frame]"
    by (simp add: requests_def idle_frame_def)
  have r: "spi_read drv (read_target op) (read_length op) ?s1 =
           Inl (Exit 1, perror ''Error transferring SPI data''
           (s\<lparr>bus_log := bus_log s @
                 [\<lparr>ex_request = command_frame op, ex_reply = Some (received miso1)\<rparr>,
                  \<lparr>ex_request = idle_frame, ex_reply = None\<rparr>]\<rparr>))"
    unfolding spi_read_eq rq using m2 by (simp add: idle_frame_def)
  show ?thesis
    unfolding execute_eq w by (simp add: seq_def r)
qed

lemma fill_sendbuf_length: "fill_sendbuf tx_buf n = Some b \<Longrightarrow> length b = 20"
  by (auto simp: fill_sendbuf_def memcpy_def Let_def split: option.splits if_splits)

lemma copy_out_log: "bus_log (final_state (copy_out rx_buf recvbuf n s)) = bus_log s"
  by (simp add: copy_out_def final_state_def split: option.splits)

lemma fixed_frame_failed: "length b = 20 \<Longrightarrow> fixed_frame \<lparr>ex_request = make_transfer b, ex_reply = None\<rparr>"
  by (simp add: fixed_frame_def make_transfer_def)

lemma fixed_frame_done:
  "length b = 20 \<Longrightarrow> fixed_frame \<lparr>ex_request = make_transfer b, ex_reply = Some (received miso)\<rparr>"
  by (simp add: fixed_frame_def make_transfer_def length_received)

lemma spi_transfer_log:
  "bus_log (final_state (spi_transfer drv tx_buf rx_buf n s)) = bus_log s \<or>
   (\<exists>e. bus_log (final_state (spi_transfer drv tx_buf rx_buf n s)) = bus_log s @ [e] \<and>
        fixed_frame e)"
proof (cases "fill_sendbuf tx_buf n")
  case None
  then show ?thesis by (simp add: spi_transfer_def final_state_def)
next
  case (Some b)
  then have len: "length b = 20" by (rule fill_sendbuf_length)
  show ?thesis
  proof (cases "sys_spi_message drv (gs_spi_fd s) (map ex_request (bus_log s) @ [make_transfer b])")
    case None
    then show ?thesis
      using Some fixed_frame_failed [OF len]
      by (simp add: spi_transfer_def final_state_def perror_def Let_def)
  next
    case (Some miso)
    then show ?thesis
      using \<open>fill_sendbuf tx_buf n = Some b\<close> fixed_frame_done [OF len, of miso]
      by (simp add: spi_transfer_def Let_def copy_out_log clock_in_received)
  qed
qed

lemma spi_transfer_extends: "log_extends s (spi_transfer drv tx_buf rx_buf n s)"
  using spi_transfer_log [of drv tx_buf rx_buf n s]
  unfolding log_extends_def
proof (elim disjE exE conjE)
  assume "bus_log (final_state (spi_transfer drv tx_buf rx_buf n s)) = bus_log s"
  then have "bus_log (final_state (spi_transfer drv tx_buf rx_buf n s)) = bus_log s @ [] \<and>
             list_all fixed_frame []" by simp
  then show "\<exists>es. bus_log (final_state (spi_transfer drv tx_buf rx_buf n s)) = bus_log s @ es \<and>
             list_all fixed_frame es" by blast
next
  fix e
  assume "bus_log (final_state (spi_transfer drv tx_buf rx_buf n s)) = bus_log s @ [e]"
    and "fixed_frame e"
  then have "bus_log (final_state (spi_transfer drv tx_buf rx_buf n s)) = bus_log s @ [e] \<and>
             list_all fixed_frame [e]" by simp
  then show "\<exists>es. bus_log (final_state (spi_transfer drv tx_buf rx_buf n s)) = bus_log s @ es \<and>
             list_all fixed_frame es" by blast
qed

lemma log_extends_seq:
  assumes r: "log_extends s r" and f: "\<And>s1. log_extends s1 (f s1)"
  shows "log_extends s (seq r f)"
proof (cases r)
  case (Inl a)
  then show ?thesis using r by (simp add: seq_def log_extends_def)
next
  case (Inr s1)
  from r Inr obtain es1 where 1: "bus_log s1 = bus_log s @ es1" "list_all fixed_frame es1"
    by (auto simp: log_extends_def final_state_def)
  from f [of s1] obtain es2 where
    2: "bus_log (final_state (f s1)) = bus_log s1 @ es2" "list_all fixed_frame es2"
    by (auto simp: log_extends_def)
  have "bus_log (final_state (f s1)) = bus_log s @ (es1 @ es2) \<and> list_all fixed_frame (es1 @ es2)"
    using 1 2 by simp
  then show ?thesis
    unfolding log_extends_def using Inr by (auto simp: seq_def)
qed

lemma log_extends_show: "log_extends s (Inr (show_reading op s))"
  by (cases op) (simp_all add: log_extends_def final_state_def printf_def)

lemma execute_extends: "log_extends s (execute drv op s)"
  unfolding execute_eq spi_write_def spi_read_def
  by (intro log_extends_seq spi_transfer_extends log_extends_show)

lemma log_extends_new: "log_extends s r \<Longrightarrow> list_all fixed_frame (new_exchanges s r)"
  by (auto simp: log_extends_def new_exchanges_def)

lemma spi_read_one_exchange:
  "\<exists>e. new_exchanges s (spi_read drv off n s) = [e] \<and> tr_len (ex_request e) = 20"
proof (cases "sys_spi_message drv (gs_spi_fd s) (requests s @ [make_transfer (replicate 20 0)])")
  case None
  then show ?thesis
    by (simp add: spi_read_eq new_exchanges_def final_state_def perror_def make_transfer_def)
next
  case (Some miso)
  then show ?thesis
    by (simp add: spi_read_eq new_exchanges_def copy_out_log make_transfer_def)
qed

lemma execute_first_exchange:
  "\<exists>e. take 1 (new_exchanges s (execute drv op s)) = [e] \<and> ex_request e = command_frame op"
proof (cases "sys_spi_message drv (gs_spi_fd s) (requests s @ [command_frame op])")
  case None
  then show ?thesis
    by (simp add: execute_fail_first new_exchanges_def final_state_def perror_def)
next
  case (Some miso1)
  let ?e = "\<lparr>ex_request = command_frame op, ex_reply = Some (received miso1)\<rparr>"
  let ?s1 = "s\<lparr>bus_log := bus_log s @ [?e]\<rparr>"
  let ?f = "\<lambda>s1. seq (spi_read drv (read_target op) (read_length op) s1)
                   (\<lambda>s2. Inr (show_reading op s2))"
  have w: "spi_write drv (command_of op) s = Inr ?s1"
    using Some by (simp add: spi_write_eq command_frame_def)
  have "log_extends ?s1 (?f ?s1)"
    unfolding spi_read_def by (intro log_extends_seq spi_transfer_extends log_extends_show)
  then obtain es where "bus_log (final_state (?f ?s1)) = bus_log ?s1 @ es"
    by (auto simp: log_extends_def)
  then have "bus_log (final_state (execute drv op s)) = bus_log s @ ?e # es"
    unfolding execute_eq w by (simp add: seq_def)
  then show ?thesis
    by (simp add: new_exchanges_def)
qed

subsection \<open>Runs on the concrete drivers\<close>

lemma ready_state_sz: "length (gs_homeoffice_data ready_state) = sizeof_homeoffice_data"
  by (simp add: ready_state_def initial_state_def)

lemma echo_driver_message:
  "sys_spi_message (echo_driver frame) fd hist = Some (\<lambda>i. frame ! i)"
  by (simp add: echo_driver_def)

lemma execute_echo:
  "execute (echo_driver frame) op ready_state =
     Inr (show_reading op
       (ready_state\<lparr>bus_log := bus_log ready_state @
             [\<lparr>ex_request = command_frame op, ex_reply = Some (received (\<lambda>i. frame ! i))\<rparr>,
              \<lparr>ex_request = idle_frame, ex_reply = Some (received (\<lambda>i. frame ! i))\<rparr>],
           gs_homeoffice_data :=
             take (read_target op) (gs_homeoffice_data ready_state) @
             map (\<lambda>i. frame ! i) [3..<3 + read_length op] @
             drop (read_target op + read_length op) (gs_homeoffice_data ready_state)\<rparr>))"
  by (rule execute_ok [OF echo_driver_message echo_driver_message ready_state_sz])

lemma spi_read_all_echo:
  "spi_read_all (echo_driver frame) ready_state =
     Inr (show_reading ReadAll
       (ready_state\<lparr>bus_log :=
             [\<lparr>ex_request = command_frame ReadAll, ex_reply = Some (received (\<lambda>i. frame ! i))\<rparr>,
              \<lparr>ex_request = idle_frame, ex_reply = Some (received (\<lambda>i. frame ! i))\<rparr>],
           gs_homeoffice_data := map (\<lambda>i. frame ! i) [3..<19]\<rparr>))"
proof -
  have "spi_read_all (echo_driver frame) ready_state = execute (echo_driver frame) ReadAll ready_state"
    by simp
  also note execute_echo
  finally show ?thesis
    by (simp add: sizeof_homeoffice_data_16 ready_state_def initial_state_def
        del: upt_rec_numeral)
qed

lemma relay_after_read_all:
  "relay_value (final_state (spi_read_all (echo_driver frame) ready_state)) = frame ! 15"
  unfolding spi_read_all_echo
  by (simp add: final_state_def printf_def relay_value_def sizeof_float_def
      del: upt_rec_numeral)

lemma power_after_read_all:
  "member_bytes Power (final_state (spi_read_all (echo_driver frame) ready_state))
   = [frame ! 11, frame ! 12, frame ! 13, frame ! 14]"
  unfolding spi_read_all_echo
  by (simp add: final_state_def printf_def member_bytes_def sizeof_float_def)

text \<open>
  A whole run of \<^verbatim>\<open>main\<close> on a device that works: read-all, then exit. The loop is left
  within two iterations, two exchanges were made, and the struct was cleared again by the
  second iteration.
\<close>

lemma spi_init_echo: "spi_init (echo_driver frame) initial_state = Inr ready_state"
  by (simp add: spi_init_def echo_driver_def ready_state_def Let_def)

lemma menu_switch_read_all: "menu_switch drv 5 s = execute drv ReadAll s"
  by (simp add: menu_switch_def)

lemma menu_switch_exit: "menu_switch drv 8 s = Inr (printf ''Exiting...\<newline>'' [] s)"
  by (simp add: menu_switch_def)

lemma main_read_all_then_exit:
  "\<exists>s. main (echo_driver demo_reply) 2 [Some 5, Some 8] = Some (Inr s) \<and>
       length (bus_log s) = 2 \<and> gs_homeoffice_data s = replicate 16 0"
proof -
  have k: "bus_log (print_menu t) = bus_log t \<and> gs_spi_fd (print_menu t) = gs_spi_fd t \<and>
           gs_homeoffice_data (print_menu t) = gs_homeoffice_data t" for t
    by (simp add: print_menu_def printf_def)
  have l: "bus_log (show_reading ReadAll t) = bus_log t \<and>
           gs_spi_fd (show_reading ReadAll t) = gs_spi_fd t" for t
    by (simp add: printf_def)
  have e: "length (gs_homeoffice_data t) = sizeof_homeoffice_data \<Longrightarrow>
           \<exists>t'. execute (echo_driver demo_reply) ReadAll t = Inr t' \<and>
                length (bus_log t') = length (bus_log t) + 2" for t
    using execute_ok [OF echo_driver_message echo_driver_message, of t demo_reply ReadAll]
    by (simp add: l del: show_reading.simps)
  have "main (echo_driver demo_reply) 2 [Some 5, Some 8]
        = menu_loop (echo_driver demo_reply) (Suc (Suc 0)) 0 [Some 5, Some 8] ready_state"
    by (simp add: main_def spi_init_echo numeral_2_eq_2)
  moreover obtain t' where t': "execute (echo_driver demo_reply) ReadAll
      (printf ''\<newline>'' [] (print_menu
         ((system ''clear'' ready_state)
            \<lparr>gs_homeoffice_data := replicate sizeof_homeoffice_data 0\<rparr>))) = Inr t'"
      "length (bus_log t') = 2"
    using e [of "printf ''\<newline>'' [] (print_menu
         ((system ''clear'' ready_state)
            \<lparr>gs_homeoffice_data := replicate sizeof_homeoffice_data 0\<rparr>))"]
    by (auto simp: printf_def k system_def ready_state_def initial_state_def)
  ultimately show ?thesis
    by (simp add: Let_def menu_switch_read_all menu_switch_exit printf_def k system_def
        sizeof_homeoffice_data_16)
qed

text \<open>The copy out of any 20-byte receive buffer, whatever its first three bytes.\<close>

lemma copy_out_slice:
  assumes "length frame = 20" and "3 + n \<le> 20"
    and "off + n \<le> length (gs_homeoffice_data s)"
  shows "\<exists>s'. copy_out (Some off) frame n s = Inr s' \<and>
           gs_homeoffice_data s' =
             take off (gs_homeoffice_data s) @ take n (drop 3 frame) @
             drop (off + n) (gs_homeoffice_data s) \<and>
           take n (drop off (gs_homeoffice_data s')) = take n (drop 3 frame) \<and>
           (\<forall>i<n. gs_homeoffice_data s' ! (off + i) = frame ! (3 + i)) \<and>
           copy_out (Some off) (h0 # h1 # h2 # drop 3 frame) n s = Inr s'"
proof -
  let ?d = "gs_homeoffice_data s"
  let ?d' = "take off ?d @ take n (drop 3 frame) @ drop (off + n) ?d"
  let ?s' = "s\<lparr>gs_homeoffice_data := ?d'\<rparr>"
  have c: "copy_out (Some off) frame n s = Inr ?s'"
    using assms by (simp add: copy_out_def memcpy_def)
  have len: "length (take n (drop 3 frame)) = n"
    using assms by simp
  have off: "length (take off ?d) = off"
    using assms by simp
  have slice: "take n (drop off ?d') = take n (drop 3 frame)"
    using len off by simp
  have nth: "\<forall>i<n. ?d' ! (off + i) = frame ! (3 + i)"
    using len off assms by (simp add: nth_append)
  have hdr: "copy_out (Some off) (h0 # h1 # h2 # drop 3 frame) n s = Inr ?s'"
    using assms by (simp add: copy_out_def memcpy_def)
  show ?thesis
    using c slice nth hdr by simp
qed

section \<open>The properties\<close>

subsection \<open>Encoding a command\<close>

text \<open>
  C4. For every command byte, and so for each of the seven command codes 0x01..0x07,
  \<^verbatim>\<open>spi_write\<close> fills a send buffer of 20 bytes whose byte 0 is the command and whose
  other 19 bytes are zero, and that buffer is the frame handed to the driver.
\<close>

theorem spi_write_encodes_command:
  "fill_sendbuf (Some [cmd]) 1 = Some (cmd # replicate 19 0) \<and>
   (\<exists>frame. sent_frames (final_state (spi_write drv cmd s)) = sent_frames s @ [frame] \<and>
      length frame = 20 \<and> frame ! 0 = cmd \<and> drop 1 frame = replicate 19 0)"
proof
  show "fill_sendbuf (Some [cmd]) 1 = Some (cmd # replicate 19 0)"
    by (rule fill_sendbuf_cmd)
  have "sent_frames (final_state (spi_write drv cmd s)) = sent_frames s @ [cmd # replicate 19 0]"
    by (simp add: spi_write_eq final_state_def sent_frames_def requests_def
        perror_def make_transfer_def split: option.splits)
  then show "\<exists>frame. sent_frames (final_state (spi_write drv cmd s)) = sent_frames s @ [frame] \<and>
      length frame = 20 \<and> frame ! 0 = cmd \<and> drop 1 frame = replicate 19 0"
    by simp
qed

theorem spi_write_encodes_command_witness:
  "\<exists>frame. sent_frames (final_state (spi_write (echo_driver demo_reply) CMD_READ_ALL ready_state))
       = sent_frames ready_state @ [frame] \<and>
     length frame = 20 \<and> frame ! 0 = CMD_READ_ALL \<and> drop 1 frame = replicate 19 0"
  using spi_write_encodes_command [of CMD_READ_ALL "echo_driver demo_reply" ready_state]
  by (rule conjunct2)

subsection \<open>Decoding the payload\<close>

text \<open>
  C5. For every reply that the driver delivers to \<^verbatim>\<open>spi_read\<close> and every payload length
  \<open>n\<close> that fits (\<open>3 + n \<le> 20\<close>; the lengths the operations use are 1, 4 and 16), the
  read makes its exchange, receives a frame of 20 bytes, and stores exactly the bytes at
  offsets 3..3+n of that frame at the target, leaving the rest of the struct alone. The
  bytes stored do not depend on offsets 0, 1 and 2 of the frame: any other reply that is
  the same from offset 3 on gives the same struct.
\<close>

theorem spi_read_decodes_payload:
  assumes rep: "sys_spi_message drv (gs_spi_fd s) (requests s @ [idle_frame]) = Some miso"
    and fit: "3 + n \<le> 20"
    and tgt: "off + n \<le> length (gs_homeoffice_data s)"
  shows "\<exists>s'. spi_read drv off n s = Inr s' \<and>
           bus_log s' = bus_log s @ [\<lparr>ex_request = idle_frame, ex_reply = Some (received miso)\<rparr>] \<and>
           length (received miso) = 20 \<and>
           gs_homeoffice_data s' =
             take off (gs_homeoffice_data s) @ take n (drop 3 (received miso)) @
             drop (off + n) (gs_homeoffice_data s) \<and>
           take n (drop off (gs_homeoffice_data s')) = take n (drop 3 (received miso)) \<and>
           (\<forall>i<n. gs_homeoffice_data s' ! (off + i) = miso (3 + i)) \<and>
           (\<forall>drv2 miso2.
              sys_spi_message drv2 (gs_spi_fd s) (requests s @ [idle_frame]) = Some miso2 \<and>
              drop 3 (received miso2) = drop 3 (received miso) \<longrightarrow>
              (\<exists>s2. spi_read drv2 off n s = Inr s2 \<and>
                    gs_homeoffice_data s2 = gs_homeoffice_data s'))"
proof -
  let ?d = "gs_homeoffice_data s"
  let ?log = "\<lambda>m. bus_log s @ [\<lparr>ex_request = idle_frame, ex_reply = Some (received m)\<rparr>]"
  let ?d' = "take off ?d @ map miso [3..<3 + n] @ drop (off + n) ?d"
  let ?s' = "s\<lparr>bus_log := ?log miso, gs_homeoffice_data := ?d'\<rparr>"
  have run: "spi_read drv2 off n s =
             Inr (s\<lparr>bus_log := ?log m,
                    gs_homeoffice_data := take off ?d @ map m [3..<3 + n] @ drop (off + n) ?d\<rparr>)"
    if "sys_spi_message drv2 (gs_spi_fd s) (requests s @ [idle_frame]) = Some m" for drv2 m
  proof -
    let ?s1 = "s\<lparr>bus_log := ?log m\<rparr>"
    have b: "off + n \<le> length (gs_homeoffice_data ?s1)" using tgt by simp
    show ?thesis
      unfolding spi_read_eq
      using that copy_out_ok [OF fit b, of m]
      by (simp add: idle_frame_def)
  qed
  have pay: "take n (drop 3 (received m)) = map m [3..<3 + n]" for m
    using fit by (rule received_payload)
  have lo: "length (take off ?d) = off" using tgt by simp
  have ln: "length (map miso [3..<3 + n]) = n" by simp
  have slice: "take n (drop off ?d') = map miso [3..<3 + n]"
    using lo ln by simp
  have nth: "\<forall>i<n. ?d' ! (off + i) = miso (3 + i)"
    using lo by (simp add: nth_append)
  have same: "map miso2 [3..<3 + n] = map miso [3..<3 + n]"
    if "drop 3 (received miso2) = drop 3 (received miso)" for miso2
    using that pay [of miso2] pay [of miso] by simp
  have indep: "\<forall>drv2 miso2.
      sys_spi_message drv2 (gs_spi_fd s) (requests s @ [idle_frame]) = Some miso2 \<and>
      drop 3 (received miso2) = drop 3 (received miso) \<longrightarrow>
      (\<exists>s2. spi_read drv2 off n s = Inr s2 \<and> gs_homeoffice_data s2 = gs_homeoffice_data ?s')"
  proof (intro allI impI, elim conjE)
    fix drv2 :: driver and miso2 :: "nat \<Rightarrow> byte"
    assume a: "sys_spi_message drv2 (gs_spi_fd s) (requests s @ [idle_frame]) = Some miso2"
      and b: "drop 3 (received miso2) = drop 3 (received miso)"
    have "gs_homeoffice_data
            (s\<lparr>bus_log := ?log miso2,
               gs_homeoffice_data := take off ?d @ map miso2 [3..<3 + n] @ drop (off + n) ?d\<rparr>)
          = gs_homeoffice_data ?s'"
      by (simp add: same [OF b])
    with run [OF a]
    show "\<exists>s2. spi_read drv2 off n s = Inr s2 \<and> gs_homeoffice_data s2 = gs_homeoffice_data ?s'"
      by (rule_tac x = "s\<lparr>bus_log := ?log miso2,
               gs_homeoffice_data := take off ?d @ map miso2 [3..<3 + n] @ drop (off + n) ?d\<rparr>"
          in exI) (rule conjI)
  qed
  have 1: "spi_read drv off n s = Inr ?s'" using run [OF rep] .
  have 2: "bus_log ?s' = ?log miso" by simp
  have 3: "gs_homeoffice_data ?s' =
      take off ?d @ take n (drop 3 (received miso)) @ drop (off + n) ?d"
    by (simp add: pay)
  have 4: "take n (drop off (gs_homeoffice_data ?s')) = take n (drop 3 (received miso))"
    using slice by (simp add: pay)
  have 5: "\<forall>i<n. gs_homeoffice_data ?s' ! (off + i) = miso (3 + i)"
    using nth by simp
  show ?thesis
    by (rule exI [of _ ?s']) (intro conjI 1 2 3 4 5 indep length_received)
qed

theorem spi_read_decodes_payload_witness:
  "sys_spi_message (echo_driver demo_reply) (gs_spi_fd cached_state)
     (requests cached_state @ [idle_frame]) = Some (\<lambda>i. demo_reply ! i) \<and>
   3 + 4 \<le> (20::nat) \<and>
   offsetof Current + 4 \<le> length (gs_homeoffice_data cached_state) \<and>
   drop 3 (received (\<lambda>i. demo_reply_other_header ! i)) = drop 3 (received (\<lambda>i. demo_reply ! i)) \<and>
   (\<exists>s'. spi_read (echo_driver demo_reply) (offsetof Current) 4 cached_state = Inr s' \<and>
      gs_homeoffice_data s' =
        [0x00, 0x00, 0x40, 0x41, 0x00, 0x00, 0x40, 0x41, 0x00, 0x00, 0xC0, 0x40, 0x01,
         0x11, 0x22, 0x33] \<and>
      (\<exists>s2. spi_read (echo_driver demo_reply_other_header) (offsetof Current) 4 cached_state
              = Inr s2 \<and>
            gs_homeoffice_data s2 = gs_homeoffice_data s'))"
proof -
  have h1: "sys_spi_message (echo_driver demo_reply) (gs_spi_fd cached_state)
     (requests cached_state @ [idle_frame]) = Some (\<lambda>i. demo_reply ! i)"
    by (rule echo_driver_message)
  have h1': "sys_spi_message (echo_driver demo_reply_other_header) (gs_spi_fd cached_state)
     (requests cached_state @ [idle_frame]) = Some (\<lambda>i. demo_reply_other_header ! i)"
    by (rule echo_driver_message)
  have h2: "3 + 4 \<le> (20::nat)" by simp
  have d: "gs_homeoffice_data cached_state =
      [0x00, 0x00, 0x40, 0x41, 0x00, 0x00, 0x00, 0x3F, 0x00, 0x00, 0xC0, 0x40, 0x01,
       0x11, 0x22, 0x33]"
    by (simp add: cached_state_def demo_reply_def)
  have h3: "offsetof Current + 4 \<le> length (gs_homeoffice_data cached_state)"
    by (simp add: d sizeof_float_def)
  have h4: "drop 3 (received (\<lambda>i. demo_reply_other_header ! i))
            = drop 3 (received (\<lambda>i. demo_reply ! i))"
    by (simp add: received_def demo_reply_other_header_def demo_reply_def drop_map)
  have p: "take 4 (drop 3 (received (\<lambda>i. demo_reply ! i))) = [0x00, 0x00, 0x40, 0x41]"
    by (simp add: received_def demo_reply_def drop_map take_map)
  show ?thesis
    using spi_read_decodes_payload [OF h1 h2 h3] h1 h1' h3 h4 p
    by (auto simp: d sizeof_float_def)
qed

subsection \<open>The length on the wire\<close>

text \<open>
  C6. Every exchange that \<^verbatim>\<open>spi_transfer\<close> hands to the driver, for every transmit
  buffer, target and requested length, and so every exchange of every operation, has the
  transfer length 20, a send buffer of 20 bytes and, when it succeeds, a reply of 20 bytes.
  \<^verbatim>\<open>spi_read\<close> performs exactly one such exchange whatever length is requested.
\<close>

theorem exchanges_are_20_bytes:
  "list_all fixed_frame (new_exchanges s (spi_transfer drv tx_buf rx_buf n s)) \<and>
   list_all fixed_frame (new_exchanges s (execute drv op s)) \<and>
   (\<exists>e. new_exchanges s (spi_read drv off n s) = [e] \<and> tr_len (ex_request e) = 20)"
  by (simp add: log_extends_new spi_transfer_extends execute_extends spi_read_one_exchange)

theorem exchanges_are_20_bytes_witness:
  "list_all fixed_frame
     (new_exchanges ready_state (spi_transfer (echo_driver demo_reply) None (Some 0) 1 ready_state)) \<and>
   list_all fixed_frame (new_exchanges ready_state (execute (echo_driver demo_reply) ReadAll ready_state)) \<and>
   (\<exists>e. new_exchanges ready_state (spi_read (echo_driver demo_reply) 0 1 ready_state) = [e] \<and>
      tr_len (ex_request e) = 20)"
  by (rule exchanges_are_20_bytes)

subsection \<open>Failures\<close>

text \<open>
  C7. If the driver reports a failure for the transfer of the command, or for the transfer
  that reads after the command went through, the operation does not return: the run ends
  in \<^verbatim>\<open>exit(1)\<close> with the diagnostic of \<^verbatim>\<open>spi_transfer\<close> on the error stream, nothing
  is printed, and \<^verbatim>\<open>gs_homeoffice_data\<close> is what it was when the operation started; the
  failed exchange has no reply.
\<close>

theorem transfer_failure_is_fatal:
  assumes "sys_spi_message drv (gs_spi_fd s) (requests s @ [command_frame op]) = None \<or>
           (\<exists>miso1. sys_spi_message drv (gs_spi_fd s) (requests s @ [command_frame op])
                      = Some miso1) \<and>
           sys_spi_message drv (gs_spi_fd s) (requests s @ [command_frame op, idle_frame]) = None"
  shows "\<exists>s'. execute drv op s = Inl (Exit 1, s') \<and>
           gs_homeoffice_data s' = gs_homeoffice_data s \<and>
           stdout s' = stdout s \<and>
           stderr s' = stderr s @ [''Error transferring SPI data''] \<and>
           ex_reply (last (bus_log s')) = None"
  using assms
proof (elim disjE conjE exE)
  assume "sys_spi_message drv (gs_spi_fd s) (requests s @ [command_frame op]) = None"
  then show ?thesis
    by (simp add: execute_fail_first perror_def)
next
  fix miso1
  assume "sys_spi_message drv (gs_spi_fd s) (requests s @ [command_frame op]) = Some miso1"
    and "sys_spi_message drv (gs_spi_fd s) (requests s @ [command_frame op, idle_frame]) = None"
  then show ?thesis
    by (simp add: execute_fail_second perror_def)
qed

theorem transfer_failure_is_fatal_witness:
  "\<exists>s'. execute (second_fails_driver demo_reply) ReadAll cached_state = Inl (Exit 1, s') \<and>
     gs_homeoffice_data s' = gs_homeoffice_data cached_state \<and>
     stdout s' = stdout cached_state \<and>
     stderr s' = stderr cached_state @ [''Error transferring SPI data''] \<and>
     ex_reply (last (bus_log s')) = None"
  by (rule transfer_failure_is_fatal)
    (simp add: second_fails_driver_def requests_def cached_state_def ready_state_def
      initial_state_def)

text \<open>
  C8. If \<^verbatim>\<open>open\<close> fails, or the driver rejects the mode, the word width or the clock
  speed, then \<^verbatim>\<open>main\<close>, whatever the input and however long it may run, ends in
  \<^verbatim>\<open>exit(1)\<close> with exactly one of the four diagnostics of \<^verbatim>\<open>spi_init\<close> on the error
  stream, nothing printed, and no exchange handed to the driver.
\<close>

theorem startup_failure_is_fatal:
  assumes "sys_open drv SPI_DEVICE < 0 \<or>
           sys_ioctl drv (sys_open drv SPI_DEVICE) (SPI_IOC_WR_MODE SPI_MODE) < 0 \<or>
           sys_ioctl drv (sys_open drv SPI_DEVICE)
             (SPI_IOC_WR_BITS_PER_WORD (of_nat SPI_BITS_PER_WORD)) < 0 \<or>
           sys_ioctl drv (sys_open drv SPI_DEVICE)
             (SPI_IOC_WR_MAX_SPEED_HZ (of_nat SPI_SPEED_HZ)) < 0"
  shows "\<exists>s' msg. main drv fuel inp = Some (Inl (Exit 1, s')) \<and>
           stderr s' = [msg] \<and> msg \<in> set startup_diagnostics \<and>
           stdout s' = [] \<and> bus_log s' = []"
  using assms
  by (auto simp: main_def spi_init_def Let_def perror_def initial_state_def
      startup_diagnostics_def)

theorem startup_failure_is_fatal_witness:
  "\<exists>s' msg. main rejects_bits_driver 5 [Some 5, Some 8] = Some (Inl (Exit 1, s')) \<and>
     stderr s' = [msg] \<and> msg \<in> set startup_diagnostics \<and> stdout s' = [] \<and> bus_log s' = []"
  by (rule startup_failure_is_fatal) (simp add: rejects_bits_driver_def)

subsection \<open>Bounds of the copy\<close>

text \<open>
  C9. For each of the six operations, the length it asks \<^verbatim>\<open>spi_read\<close> for (1 for the
  relay, 4 for a float, 16 for the whole struct) satisfies \<open>3 + len \<le> 20\<close> and fits the
  target inside the struct; so, when the struct has its size, the copy from the receive
  buffer is defined and is the slice at offsets 3..3+len, and no run of an operation ends
  in an out-of-bounds access.
\<close>

theorem payload_copy_in_bounds:
  "3 + read_length op \<le> 20 \<and>
   read_target op + read_length op \<le> sizeof_homeoffice_data \<and>
   (length (gs_homeoffice_data s) = sizeof_homeoffice_data \<longrightarrow>
      (\<forall>s'. execute drv op s \<noteq> Inl (OutOfBounds, s')) \<and>
      (\<forall>miso. memcpy (gs_homeoffice_data s) (read_target op) (received miso) 3 (read_length op)
         = Some (take (read_target op) (gs_homeoffice_data s) @
                 map miso [3..<3 + read_length op] @
                 drop (read_target op + read_length op) (gs_homeoffice_data s))))"
proof (intro conjI impI allI)
  show "3 + read_length op \<le> 20" by (rule read_length_le)
  show "read_target op + read_length op \<le> sizeof_homeoffice_data" by (rule read_target_le)
next
  fix s'
  assume sz: "length (gs_homeoffice_data s) = sizeof_homeoffice_data"
  show "execute drv op s \<noteq> Inl (OutOfBounds, s')"
  proof (cases "sys_spi_message drv (gs_spi_fd s) (requests s @ [command_frame op])")
    case None
    then show ?thesis by (simp add: execute_fail_first)
  next
    case (Some miso1)
    show ?thesis
    proof (cases "sys_spi_message drv (gs_spi_fd s) (requests s @ [command_frame op, idle_frame])")
      case None
      with Some show ?thesis by (simp add: execute_fail_second)
    next
      case (Some miso2)
      with \<open>sys_spi_message drv (gs_spi_fd s) (requests s @ [command_frame op]) = Some miso1\<close> sz
      show ?thesis by (simp add: execute_ok)
    qed
  qed
next
  fix miso
  assume sz: "length (gs_homeoffice_data s) = sizeof_homeoffice_data"
  show "memcpy (gs_homeoffice_data s) (read_target op) (received miso) 3 (read_length op)
         = Some (take (read_target op) (gs_homeoffice_data s) @
                 map miso [3..<3 + read_length op] @
                 drop (read_target op + read_length op) (gs_homeoffice_data s))"
    using read_length_le [of op] read_target_le [of op] sz
    by (simp add: memcpy_def length_received received_payload)
qed

theorem payload_copy_in_bounds_witness:
  "length (gs_homeoffice_data ready_state) = sizeof_homeoffice_data \<and>
   3 + read_length ReadAll \<le> 20 \<and>
   (\<forall>s'. execute (echo_driver demo_reply) ReadAll ready_state \<noteq> Inl (OutOfBounds, s'))"
proof -
  have sz: "length (gs_homeoffice_data ready_state) = sizeof_homeoffice_data"
    by (simp add: ready_state_def initial_state_def)
  show ?thesis
    using sz payload_copy_in_bounds [of ReadAll ready_state "echo_driver demo_reply"] by blast
qed

subsection \<open>Setting the relay\<close>

text \<open>
  C10. \<^verbatim>\<open>spi_set_relay\<close> sends first, in every run, the command 0x06 when its argument is
  not zero and 0x07 when it is zero. When both of its transfers succeed it stores exactly
  one byte, payload byte 3 of the second reply, as the relay member, and prints ON if and
  only if that byte is not zero.
\<close>

theorem spi_set_relay_behaviour:
  "(\<exists>e. take 1 (new_exchanges s (spi_set_relay drv st s)) = [e] \<and>
        tr_tx_buf (ex_request e) = (if st \<noteq> 0 then 0x06 else 0x07) # replicate 19 0) \<and>
   (sys_spi_message drv (gs_spi_fd s) (requests s @ [command_frame (SetRelay st)]) = Some miso1 \<and>
    sys_spi_message drv (gs_spi_fd s) (requests s @ [command_frame (SetRelay st), idle_frame])
      = Some miso2 \<and>
    length (gs_homeoffice_data s) = sizeof_homeoffice_data \<longrightarrow>
    (\<exists>s'. spi_set_relay drv st s = Inr s' \<and>
       sent_frames s' =
         sent_frames s @ [(if st \<noteq> 0 then 0x06 else 0x07) # replicate 19 0, replicate 20 0] \<and>
       gs_homeoffice_data s' = (gs_homeoffice_data s)[offsetof Relay := miso2 3] \<and>
       relay_value s' = miso2 3 \<and>
       stdout s' = stdout s @
         [Printf ''Relay: %s\<newline>'' [Str (if miso2 3 \<noteq> 0 then ''ON'' else ''OFF'')]]))"
proof (intro conjI impI)
  have "spi_set_relay drv st s = execute drv (SetRelay st) s" by simp
  then show "\<exists>e. take 1 (new_exchanges s (spi_set_relay drv st s)) = [e] \<and>
        tr_tx_buf (ex_request e) = (if st \<noteq> 0 then 0x06 else 0x07) # replicate 19 0"
    using execute_first_exchange [of s drv "SetRelay st"]
    by (auto simp: command_frame_def make_transfer_def CMD_SET_RELAY_ON_def
        CMD_SET_RELAY_OFF_def)
next
  assume a: "sys_spi_message drv (gs_spi_fd s) (requests s @ [command_frame (SetRelay st)])
      = Some miso1 \<and>
    sys_spi_message drv (gs_spi_fd s) (requests s @ [command_frame (SetRelay st), idle_frame])
      = Some miso2 \<and>
    length (gs_homeoffice_data s) = sizeof_homeoffice_data"
  then have m1: "sys_spi_message drv (gs_spi_fd s) (requests s @ [command_frame (SetRelay st)])
      = Some miso1"
    and m2: "sys_spi_message drv (gs_spi_fd s)
      (requests s @ [command_frame (SetRelay st), idle_frame]) = Some miso2"
    and sz: "length (gs_homeoffice_data s) = sizeof_homeoffice_data"
    by simp_all
  have d: "take 12 (gs_homeoffice_data s) @ [miso2 3] @ drop 13 (gs_homeoffice_data s)
           = (gs_homeoffice_data s)[12 := miso2 3]"
    using sz by (simp add: upd_conv_take_nth_drop sizeof_homeoffice_data_16)
  have r: "((gs_homeoffice_data s)[12 := miso2 3]) ! 12 = miso2 3"
    using sz by (simp add: sizeof_homeoffice_data_16)
  have "spi_set_relay drv st s = execute drv (SetRelay st) s" by simp
  also note execute_ok [OF m1 m2 sz]
  finally show "\<exists>s'. spi_set_relay drv st s = Inr s' \<and>
       sent_frames s' =
         sent_frames s @ [(if st \<noteq> 0 then 0x06 else 0x07) # replicate 19 0, replicate 20 0] \<and>
       gs_homeoffice_data s' = (gs_homeoffice_data s)[offsetof Relay := miso2 3] \<and>
       relay_value s' = miso2 3 \<and>
       stdout s' = stdout s @
         [Printf ''Relay: %s\<newline>'' [Str (if miso2 3 \<noteq> 0 then ''ON'' else ''OFF'')]]"
    using d r
    by (simp add: sizeof_float_def sizeof_uint8_t_def printf_def relay_value_def on_off_def
        sent_frames_def requests_def command_frame_def idle_frame_def make_transfer_def
        CMD_SET_RELAY_ON_def CMD_SET_RELAY_OFF_def)
qed

theorem spi_set_relay_behaviour_witness:
  "sys_spi_message (echo_driver demo_reply) (gs_spi_fd ready_state)
     (requests ready_state @ [command_frame (SetRelay 1)]) = Some (\<lambda>i. demo_reply ! i) \<and>
   length (gs_homeoffice_data ready_state) = sizeof_homeoffice_data \<and>
   (\<exists>s'. spi_set_relay (echo_driver demo_reply) 1 ready_state = Inr s' \<and>
      sent_frames s' =
        [[6, 0, 0, 0, 0, 0, 0, 0, 0, 0, 0, 0, 0, 0, 0, 0, 0, 0, 0, 0], replicate 20 0] \<and>
      relay_value s' = 0 \<and>
      stdout s' = [Printf ''Relay: %s\<newline>'' [Str ''OFF'']])"
proof -
  have p: "demo_reply ! 3 = 0" by (simp add: demo_reply_def)
  have q: "sent_frames ready_state = [] \<and> stdout ready_state = []"
    by (simp add: sent_frames_def requests_def ready_state_def initial_state_def)
  have n: "replicate 19 (0::byte) = [0, 0, 0, 0, 0, 0, 0, 0, 0, 0, 0, 0, 0, 0, 0, 0, 0, 0, 0]"
    by (simp add: numeral_eq_Suc)
  show ?thesis
    using spi_set_relay_behaviour
      [of ready_state "echo_driver demo_reply" 1 "\<lambda>i. demo_reply ! i" "\<lambda>i. demo_reply ! i"]
      echo_driver_message ready_state_sz p q n
    by auto
qed

subsection \<open>The exchanges of one operation\<close>

text \<open>
  The claim that an operation performs exactly one exchange whose reply supplies the
  reading does not hold: reading the voltage from a device that answers the command with
  one frame and the next transfer with another performs two exchanges, and the bytes
  stored are those of the second reply, not of the reply to the command.
\<close>

theorem one_round_trip_counterexample:
  "length (new_exchanges ready_state
     (execute (two_reply_driver frame_one_at_15 demo_reply) ReadVoltage ready_state)) = 2 \<and>
   member_bytes Voltage
     (final_state (execute (two_reply_driver frame_one_at_15 demo_reply) ReadVoltage ready_state))
     = take 4 (drop 3 demo_reply) \<and>
   take 4 (drop 3 demo_reply) \<noteq> take 4 (drop 3 frame_one_at_15)"
proof -
  have m1: "sys_spi_message (two_reply_driver frame_one_at_15 demo_reply) (gs_spi_fd ready_state)
              (requests ready_state @ [command_frame ReadVoltage])
            = Some (\<lambda>i. frame_one_at_15 ! i)"
    by (simp add: two_reply_driver_def requests_def ready_state_def initial_state_def)
  have m2: "sys_spi_message (two_reply_driver frame_one_at_15 demo_reply) (gs_spi_fd ready_state)
              (requests ready_state @ [command_frame ReadVoltage, idle_frame])
            = Some (\<lambda>i. demo_reply ! i)"
    by (simp add: two_reply_driver_def requests_def ready_state_def initial_state_def)
  have p: "take 4 (drop 3 demo_reply) = [0x00, 0x00, 0x40, 0x41]"
    by (simp add: demo_reply_def)
  have q: "take 4 (drop 3 frame_one_at_15) = [0, 0, 0, 0]"
    by (simp add: frame_one_at_15_def numeral_eq_Suc)
  show ?thesis
    unfolding execute_ok [OF m1 m2 ready_state_sz] p q
    by (simp add: new_exchanges_def final_state_def printf_def member_bytes_def
        sizeof_float_def demo_reply_def ready_state_def initial_state_def)
qed

text \<open>
  C1, as amended. Every operation whose transfers succeed performs exactly two exchanges
  of 20 bytes: the first sends the command frame and its reply is dropped, the second
  sends 20 zero bytes and its reply supplies the reading, copied from offset 3 to the
  target of the operation. Setting the relay is no different.
\<close>

theorem operation_performs_two_exchanges:
  assumes m1: "sys_spi_message drv (gs_spi_fd s) (requests s @ [command_frame op]) = Some miso1"
    and m2: "sys_spi_message drv (gs_spi_fd s) (requests s @ [command_frame op, idle_frame])
             = Some miso2"
    and sz: "length (gs_homeoffice_data s) = sizeof_homeoffice_data"
  shows "\<exists>s'. execute drv op s = Inr s' \<and>
           new_exchanges s (execute drv op s) =
             [\<lparr>ex_request = command_frame op, ex_reply = Some (received miso1)\<rparr>,
              \<lparr>ex_request = idle_frame, ex_reply = Some (received miso2)\<rparr>] \<and>
           sent_frames s' = sent_frames s @ [command_of op # replicate 19 0, replicate 20 0] \<and>
           list_all fixed_frame (new_exchanges s (execute drv op s)) \<and>
           gs_homeoffice_data s' =
             take (read_target op) (gs_homeoffice_data s) @
             take (read_length op) (drop 3 (received miso2)) @
             drop (read_target op + read_length op) (gs_homeoffice_data s)"
proof -
  have log: "bus_log (show_reading op t) = bus_log t" for t
    by (cases op) (simp_all add: printf_def)
  have dat: "gs_homeoffice_data (show_reading op t) = gs_homeoffice_data t" for t
    by (cases op) (simp_all add: printf_def)
  have ff: "list_all fixed_frame (new_exchanges s (execute drv op s))"
    by (rule log_extends_new [OF execute_extends])
  show ?thesis
    using ff unfolding execute_ok [OF m1 m2 sz]
    by (simp add: new_exchanges_def final_state_def log dat sent_frames_def requests_def
        command_frame_def idle_frame_def make_transfer_def received_payload read_length_le)
qed

theorem operation_performs_two_exchanges_witness:
  "\<exists>s'. execute (echo_driver demo_reply) ReadAll ready_state = Inr s' \<and>
     new_exchanges ready_state (execute (echo_driver demo_reply) ReadAll ready_state) =
       [\<lparr>ex_request = command_frame ReadAll,
         ex_reply = Some (received (\<lambda>i. demo_reply ! i))\<rparr>,
        \<lparr>ex_request = idle_frame, ex_reply = Some (received (\<lambda>i. demo_reply ! i))\<rparr>] \<and>
     sent_frames s' =
       sent_frames ready_state @ [command_of ReadAll # replicate 19 0, replicate 20 0] \<and>
     list_all fixed_frame
       (new_exchanges ready_state (execute (echo_driver demo_reply) ReadAll ready_state)) \<and>
     gs_homeoffice_data s' =
       take (read_target ReadAll) (gs_homeoffice_data ready_state) @
       take (read_length ReadAll) (drop 3 (received (\<lambda>i. demo_reply ! i))) @
       drop (read_target ReadAll + read_length ReadAll) (gs_homeoffice_data ready_state)"
  by (rule operation_performs_two_exchanges
        [OF echo_driver_message echo_driver_message ready_state_sz])

subsection \<open>The payload of read-all\<close>

text \<open>
  The claim that read-all takes its fields from the 9 payload bytes voltage(4) +
  current(4) + relay(1) does not hold: two replies with the same 9 bytes give different
  relay states, and a reply whose ninth payload byte is 1 gives relay 0 and that byte as
  the first byte of the power.
\<close>

theorem read_all_nine_bytes_counterexample:
  "table_payload frame_one_at_15 = table_payload (replicate 20 0) \<and>
   relay_value (final_state (spi_read_all (echo_driver frame_one_at_15) ready_state)) = 1 \<and>
   relay_value (final_state (spi_read_all (echo_driver (replicate 20 0)) ready_state)) = 0 \<and>
   table_relay_byte frame_one_at_11 = 1 \<and>
   relay_value (final_state (spi_read_all (echo_driver frame_one_at_11) ready_state)) = 0 \<and>
   member_bytes Power (final_state (spi_read_all (echo_driver frame_one_at_11) ready_state))
     = [1, 0, 0, 0]"
  by (simp add: relay_after_read_all power_after_read_all table_payload_def
      table_relay_byte_def frame_one_at_15_def frame_one_at_11_def numeral_eq_Suc)

text \<open>
  C2, as amended. Read-all copies the 16 bytes of the struct from reply offset 3:
  voltage from offsets 3..7, current from 7..11, power from 11..15, the relay from
  offset 15, and three more bytes into the padding of the struct.
\<close>

theorem spi_read_all_layout:
  assumes m1: "sys_spi_message drv (gs_spi_fd s) (requests s @ [command_frame ReadAll])
               = Some miso1"
    and m2: "sys_spi_message drv (gs_spi_fd s) (requests s @ [command_frame ReadAll, idle_frame])
             = Some miso2"
    and sz: "length (gs_homeoffice_data s) = sizeof_homeoffice_data"
  shows "\<exists>s'. spi_read_all drv s = Inr s' \<and>
           sizeof_homeoffice_data = 16 \<and>
           gs_homeoffice_data s' = take 16 (drop 3 (received miso2)) \<and>
           member_bytes Voltage s' = [miso2 3, miso2 4, miso2 5, miso2 6] \<and>
           member_bytes Current s' = [miso2 7, miso2 8, miso2 9, miso2 10] \<and>
           member_bytes Power s' = [miso2 11, miso2 12, miso2 13, miso2 14] \<and>
           relay_value s' = miso2 15 \<and>
           drop 13 (gs_homeoffice_data s') = [miso2 16, miso2 17, miso2 18]"
proof -
  have "spi_read_all drv s = execute drv ReadAll s" by simp
  also note execute_ok [OF m1 m2 sz]
  finally have e: "spi_read_all drv s =
     Inr (show_reading ReadAll
       (s\<lparr>bus_log := bus_log s @
             [\<lparr>ex_request = command_frame ReadAll, ex_reply = Some (received miso1)\<rparr>,
              \<lparr>ex_request = idle_frame, ex_reply = Some (received miso2)\<rparr>],
           gs_homeoffice_data := map miso2 [3..<19]\<rparr>))"
    using sz by (simp add: sizeof_homeoffice_data_16 del: upt_rec_numeral)
  have p: "take 16 (drop 3 (received miso2)) = map miso2 [3..<19]"
    using received_payload [of 16 miso2] by simp
  show ?thesis
    unfolding e p
    by (simp add: sizeof_homeoffice_data_16 printf_def member_bytes_def relay_value_def
        sizeof_float_def)
qed

theorem spi_read_all_layout_witness:
  "\<exists>s'. spi_read_all (echo_driver demo_reply) ready_state = Inr s' \<and>
     sizeof_homeoffice_data = 16 \<and>
     gs_homeoffice_data s' = take 16 (drop 3 (received (\<lambda>i. demo_reply ! i))) \<and>
     member_bytes Voltage s' = [demo_reply ! 3, demo_reply ! 4, demo_reply ! 5, demo_reply ! 6] \<and>
     member_bytes Current s' = [demo_reply ! 7, demo_reply ! 8, demo_reply ! 9, demo_reply ! 10] \<and>
     member_bytes Power s' = [demo_reply ! 11, demo_reply ! 12, demo_reply ! 13, demo_reply ! 14] \<and>
     relay_value s' = demo_reply ! 15 \<and>
     drop 13 (gs_homeoffice_data s') = [demo_reply ! 16, demo_reply ! 17, demo_reply ! 18]"
  by (rule spi_read_all_layout [OF echo_driver_message echo_driver_message ready_state_sz])

subsection \<open>What is printed\<close>

text \<open>
  C3. The voltage is printed unscaled, the current and the power times 1000 with the units
  mA and mW. The unit printed with the voltage is V in \<^verbatim>\<open>spi_read_voltage\<close> but mV in
  \<^verbatim>\<open>spi_read_all\<close>, for the same unscaled value: evaluated here on a reply that carries
  12.0, and on the read-current scenario with the payload of 0.5.
\<close>

theorem read_all_prints_volts_as_millivolts:
  "stdout (final_state (spi_read_all (echo_driver demo_reply) ready_state)) =
     [Printf ''Voltage: %05.2f mV\<newline>'' [FloatObj [0x00, 0x00, 0x40, 0x41]],
      Printf ''Current: %05.2f mA\<newline>'' [Times (FloatObj [0x00, 0x00, 0x00, 0x3F]) 1000],
      Printf ''Power: %05.2f mW\<newline>'' [Times (FloatObj [0x00, 0x00, 0xC0, 0x40]) 1000],
      Printf ''Relay: %s\<newline>'' [Str ''ON'']] \<and>
   stdout (final_state (spi_read_voltage (echo_driver demo_reply) ready_state)) =
     [Printf ''Voltage: %05.2f V\<newline>'' [FloatObj [0x00, 0x00, 0x40, 0x41]]] \<and>
   stdout (final_state (spi_read_current (echo_driver current_reply) ready_state)) =
     [Printf ''Current: %05.2f mA\<newline>'' [Times (FloatObj [0x00, 0x00, 0x00, 0x3F]) 1000]]"
proof -
  have a: "spi_read_all (echo_driver demo_reply) ready_state
           = execute (echo_driver demo_reply) ReadAll ready_state" by simp
  have v: "spi_read_voltage (echo_driver demo_reply) ready_state
           = execute (echo_driver demo_reply) ReadVoltage ready_state" by simp
  have c: "spi_read_current (echo_driver current_reply) ready_state
           = execute (echo_driver current_reply) ReadCurrent ready_state" by simp
  show ?thesis
    unfolding a v c execute_echo
    by (simp add: final_state_def printf_def member_bytes_def relay_value_def on_off_def
        sizeof_float_def sizeof_homeoffice_data_16 ready_state_def initial_state_def
        demo_reply_def current_reply_def)
qed

end
